theory Spec2Isabelle
  imports Main "HOL-Library.Word" "HOL-Library.Sublist"
begin

text \<open>
  A model of \<open>public/app.js\<close>, the script of the recipe generator page: the ingredient
  list and the equipment selection, the building and validation of the request, the
  rendering of a recipe, and the submission with its error handling. The functions
  keep their names. What is only presentation is left out: focus, scrolling, timers,
  printing, the loading of the dropdown options and the markup of the templates.
\<close>

section \<open>JavaScript values used by \<open>public/app.js\<close>\<close>

text \<open>
  A JavaScript string is a sequence of UTF-16 code units, so a code unit is a 16-bit word
  and a string is a list of them. \<open>js\<close> embeds an ASCII literal of the source.
\<close>

type_synonym jschar = "16 word"
type_synonym jsstring = "jschar list"

definition js :: "string \<Rightarrow> jsstring" where
  "js s = map (\<lambda>c. of_nat (of_char c)) s"

text \<open>
  White space as \<open>String.prototype.trim\<close> and \<open>parseInt\<close> strip it: the WhiteSpace and
  LineTerminator code points of ECMAScript (all of them lie in the basic plane).
\<close>

definition isWhiteSpace :: "jschar \<Rightarrow> bool" where
  "isWhiteSpace c \<longleftrightarrow>
     c \<in> {0x0009, 0x000A, 0x000B, 0x000C, 0x000D, 0x0020, 0x00A0, 0x1680,
          0x2028, 0x2029, 0x202F, 0x205F, 0x3000, 0xFEFF}
     \<or> (0x2000 \<le> c \<and> c \<le> 0x200A)"

definition trim :: "jsstring \<Rightarrow> jsstring" where
  "trim s = rev (dropWhile isWhiteSpace (rev (dropWhile isWhiteSpace s)))"

text \<open>
  The numbers \<open>parseInt\<close> returns: \<open>NaN\<close> or an integer. The integer is kept exact (a
  double rounds beyond \<open>2^53\<close>, which no comparison with 1, 5, 20 or 480 can observe, and
  \<open>-0\<close> compares like \<open>0\<close>). A relational comparison with \<open>NaN\<close> on either side is false.
\<close>

datatype jsnum = NaN | Finite int

definition js_lt :: "jsnum \<Rightarrow> jsnum \<Rightarrow> bool" where
  "js_lt a b = (case (a, b) of (Finite x, Finite y) \<Rightarrow> x < y | _ \<Rightarrow> False)"

definition js_gt :: "jsnum \<Rightarrow> jsnum \<Rightarrow> bool" where
  "js_gt a b = (case (a, b) of (Finite x, Finite y) \<Rightarrow> x > y | _ \<Rightarrow> False)"

text \<open>
  \<open>parseInt(string)\<close> with no radix: skip leading white space, read a sign, switch to
  radix 16 after \<open>0x\<close> or \<open>0X\<close>, take the longest prefix of digits of the radix, and
  return \<open>NaN\<close> when that prefix is empty.
\<close>

definition digitValue :: "nat \<Rightarrow> jschar \<Rightarrow> nat option" where
  "digitValue R c =
     (let v = (if 0x30 \<le> c \<and> c \<le> 0x39 then Some (unat c - 0x30)
               else if 0x61 \<le> c \<and> c \<le> 0x7A then Some (unat c - 0x61 + 10)
               else if 0x41 \<le> c \<and> c \<le> 0x5A then Some (unat c - 0x41 + 10)
               else None)
      in case v of None \<Rightarrow> None | Some d \<Rightarrow> if d < R then Some d else None)"

definition parseInt :: "jsstring \<Rightarrow> jsnum" where
  "parseInt inputString =
     (let S = dropWhile isWhiteSpace inputString;
          sign = (if S \<noteq> [] \<and> hd S = 0x2D then - 1 else 1 :: int);
          S = (if S \<noteq> [] \<and> (hd S = 0x2B \<or> hd S = 0x2D) then tl S else S);
          hex = (2 \<le> length S \<and> (take 2 S = js ''0x'' \<or> take 2 S = js ''0X''));
          R = (if hex then 16 else 10 :: nat);
          S = (if hex then drop 2 S else S);
          Z = takeWhile (\<lambda>c. digitValue R c \<noteq> None) S
      in if Z = [] then NaN
         else Finite (sign * int (foldl (\<lambda>acc c. acc * R + the (digitValue R c)) 0 Z)))"

text \<open>
  The values a parsed JSON body is made of, and \<open>undefined\<close> for a property that is not
  there. Numbers of a response are integers here (minutes, servings, counts). An object
  is the list of its properties, one entry for each key.
\<close>

datatype jsval =
    Undefined
  | Null
  | Bool bool
  | Num int
  | Str jsstring
  | Arr "jsval list"
  | Obj "(jsstring \<times> jsval) list"

fun truthy :: "jsval \<Rightarrow> bool" where
  "truthy Undefined = False"
| "truthy Null = False"
| "truthy (Bool b) = b"
| "truthy (Num n) = (n \<noteq> 0)"
| "truthy (Str s) = (s \<noteq> [])"
| "truthy (Arr xs) = True"
| "truthy (Obj kvs) = True"

text \<open>The operator \<^verbatim>\<open>||\<close>: the left operand when it is truthy, otherwise the right one.\<close>

definition js_or :: "jsval \<Rightarrow> jsval \<Rightarrow> jsval" where
  "js_or a b = (if truthy a then a else b)"

text \<open>
  \<open>v.key\<close> on a value that is neither \<open>null\<close> nor \<open>undefined\<close> (on those the access throws,
  which each caller below checks first). None of the keys the program reads is a property
  of a primitive's or an array's prototype, so only an object can hold them.
\<close>

fun getProp :: "jsval \<Rightarrow> string \<Rightarrow> jsval" where
  "getProp (Obj kvs) key = (case map_of kvs (js key) of None \<Rightarrow> Undefined | Some v \<Rightarrow> v)"
| "getProp v key = Undefined"

definition nullish :: "jsval \<Rightarrow> bool" where
  "nullish v \<longleftrightarrow> v = Undefined \<or> v = Null"

fun digits :: "nat \<Rightarrow> jsstring" where
  "digits n = (if n < 10 then [0x30 + of_nat n]
               else digits (n div 10) @ [0x30 + of_nat (n mod 10)])"

fun join :: "jsstring \<Rightarrow> jsstring list \<Rightarrow> jsstring" where
  "join sep [] = []"
| "join sep [x] = x"
| "join sep (x # y # ys) = x @ sep @ join sep (y # ys)"

text \<open>
  The string a template literal or \<open>new Error(v)\<close> makes of a value: an array joins
  the strings of its entries with commas, \<open>null\<close> entries giving nothing, and an object
  (with the \<open>toString\<close> it inherits) gives \<open>[object Object]\<close>.
\<close>

fun ToString :: "jsval \<Rightarrow> jsstring" where
  "ToString Undefined = js ''undefined''"
| "ToString Null = js ''null''"
| "ToString (Bool b) = (if b then js ''true'' else js ''false'')"
| "ToString (Num n) = (if n < 0 then 0x2D # digits (nat (- n)) else digits (nat n))"
| "ToString (Str s) = s"
| "ToString (Arr xs) =
     join (js '','')
       (map (\<lambda>x. case x of Undefined \<Rightarrow> [] | Null \<Rightarrow> [] | _ \<Rightarrow> ToString x) xs)"
| "ToString (Obj kvs) = js ''[object Object]''"

text \<open>
  Assigning a value to \<open>textContent\<close>: \<open>null\<close> and \<open>undefined\<close> give the empty text, any
  other value its string.
\<close>

definition textContent :: "jsval \<Rightarrow> jsstring" where
  "textContent v = (if nullish v then [] else ToString v)"

text \<open>
  What a \<open>catch\<close> can receive: an \<open>Error\<close> the program made itself, with its message, or
  an exception of the engine, whose message text is the engine's own.
\<close>

datatype exn =
    Error jsstring
  | TypeError
  | SyntaxError
  | FetchFailed

datatype message = Text jsstring | EngineMessage exn

section \<open>The page and the \<open>RecipeGenerator\<close> object\<close>

text \<open>
  The entries the renderer puts into a container of the result view:
  \<^item> \<open>TextNode t\<close>: an element whose \<open>textContent\<close> is \<open>t\<close>;
  \<^item> \<open>IngredientNode name notes amount unit\<close>: the list item of a structured ingredient,
    its template filled with the name, the notes line when there is one, the amount and
    the unit;
  \<^item> \<open>InstructionNode text meta\<close>: the list item of a structured instruction, its
    template filled with the text and, when there is a meta line, the time and the
    temperature of that line, each when it is there;
  \<^item> \<open>NutritionNode label value\<close>: a nutrition item with its label and value;
  \<^item> \<open>Paragraph t\<close>: the paragraph \<open>t\<close> written into the nutrition container.
\<close>

datatype node =
    TextNode jsstring
  | IngredientNode jsstring "jsstring option" jsstring jsstring
  | InstructionNode jsstring "(jsstring option \<times> jsstring option) option"
  | NutritionNode jsstring jsstring
  | Paragraph jsstring

text \<open>The object \<open>collectFormData\<close> returns and \<open>generateRecipe\<close> posts.\<close>

record formData =
  ingredients :: "jsstring list"
  cookingTime :: jsnum
  servings :: jsnum
  difficulty :: jsstring
  cuisine :: jsstring
  mealType :: jsstring
  dietaryRestrictions :: jsstring
  equipment :: "jsstring list"

text \<open>
  The state the functions read and write: the two fields of the \<open>RecipeGenerator\<close>
  object, the form controls, the equipment items of the grid (numbered), the error box,
  the two views, the contents of the result view, and two logs: the bodies posted to
  \<open>/api/recipes/generate\<close> and the messages passed to \<open>showError\<close>.
\<close>

record app =
  this_ingredients :: "jsstring list"
  this_selectedEquipment :: "jsstring list"
  ingredientInput_value :: jsstring
  cookingTime_value :: jsstring
  servings_value :: jsstring
  difficulty_value :: jsstring
  cuisine_value :: jsstring
  mealType_value :: jsstring
  dietaryRestrictions_value :: jsstring
  checkbox_checked :: "nat \<Rightarrow> bool"
  item_selected :: "nat \<Rightarrow> bool"
  ingredientsList :: "jsstring list"
  generateBtn_disabled :: bool
  generateBtn_loading :: bool
  errorMessage_hidden :: bool
  errorText :: message
  recipeForm_display :: jsstring
  formContainer_display :: jsstring
  recipeResult_hidden :: bool
  recipeTitle :: jsstring
  recipeDescription :: jsstring
  recipeTotalTime :: jsstring
  recipeServings :: jsstring
  recipeDifficulty :: jsstring
  recipeCuisine :: jsstring
  recipeIngredients :: "node list"
  recipeEquipment :: "node list"
  recipeInstructions :: "node list"
  recipeTips :: "node list"
  recipeNutrition :: "node list"
  recipeStorage :: jsstring
  recipeVariations :: "node list"
  posted :: "formData list"
  shown :: "message list"

subsection \<open>Selection state\<close>

definition updateEquipmentSelection :: "nat \<Rightarrow> jsstring \<Rightarrow> app \<Rightarrow> app" where
  "updateEquipmentSelection item equipment_name s =
     (if checkbox_checked s item then
        (let s = s\<lparr>item_selected := (item_selected s)(item := True)\<rparr>
         in if equipment_name \<notin> set (this_selectedEquipment s)
            then s\<lparr>this_selectedEquipment := this_selectedEquipment s @ [equipment_name]\<rparr>
            else s)
      else
        (let s = s\<lparr>item_selected := (item_selected s)(item := False)\<rparr>
         in s\<lparr>this_selectedEquipment :=
                 filter (\<lambda>eq. eq \<noteq> equipment_name) (this_selectedEquipment s)\<rparr>))"

definition updateIngredientsDisplay :: "app \<Rightarrow> app" where
  "updateIngredientsDisplay s = s\<lparr>ingredientsList := this_ingredients s\<rparr>"

definition addIngredient :: "app \<Rightarrow> app" where
  "addIngredient s =
     (let ingredient = trim (ingredientInput_value s)
      in if ingredient \<noteq> [] \<and> ingredient \<notin> set (this_ingredients s) then
           (let s = s\<lparr>this_ingredients := this_ingredients s @ [ingredient]\<rparr>;
                s = updateIngredientsDisplay s
            in s\<lparr>ingredientInput_value := []\<rparr>)
         else s)"

definition removeIngredient :: "jsstring \<Rightarrow> app \<Rightarrow> app" where
  "removeIngredient ingredient s =
     updateIngredientsDisplay
       (s\<lparr>this_ingredients := filter (\<lambda>ing. ing \<noteq> ingredient) (this_ingredients s)\<rparr>)"

subsection \<open>Request building and validation\<close>

definition collectFormData :: "app \<Rightarrow> formData" where
  "collectFormData s =
     \<lparr>ingredients = this_ingredients s,
      cookingTime = parseInt (cookingTime_value s),
      servings = parseInt (servings_value s),
      difficulty = difficulty_value s,
      cuisine = cuisine_value s,
      mealType = mealType_value s,
      dietaryRestrictions = dietaryRestrictions_value s,
      equipment = this_selectedEquipment s\<rparr>"

definition validateForm :: "formData \<Rightarrow> jsstring list" where
  "validateForm data =
     (let errors = [];
          errors = (if length (ingredients data) = 0
                    then errors @ [js ''Please add at least one ingredient'']
                    else errors);
          errors = (if js_lt (cookingTime data) (Finite 5) \<or> js_gt (cookingTime data) (Finite 480)
                    then errors @ [js ''Cooking time must be between 5 and 480 minutes'']
                    else errors);
          errors = (if js_lt (servings data) (Finite 1) \<or> js_gt (servings data) (Finite 20)
                    then errors @ [js ''Servings must be between 1 and 20'']
                    else errors)
      in errors)"

subsection \<open>Rendering a recipe\<close>

text \<open>
  \<open>forEach\<close> with a callback that may throw: the entries before the throw have had their
  effect. Calling \<open>forEach\<close> on a value that is no array throws a \<open>TypeError\<close>.
\<close>

fun forEach :: "('a \<Rightarrow> 's \<Rightarrow> exn option \<times> 's) \<Rightarrow> 'a list \<Rightarrow> 's \<Rightarrow> exn option \<times> 's" where
  "forEach f [] s = (None, s)"
| "forEach f (x # xs) s =
     (case f x s of (Some e, s') \<Rightarrow> (Some e, s') | (None, s') \<Rightarrow> forEach f xs s')"

text \<open>Statements in sequence: an exception of the first skips the rest.\<close>

definition andThen :: "exn option \<times> 's \<Rightarrow> ('s \<Rightarrow> exn option \<times> 's) \<Rightarrow> exn option \<times> 's" where
  "andThen r f = (case r of (Some e, s) \<Rightarrow> (Some e, s) | (None, s) \<Rightarrow> f s)"

definition forEachOf :: "jsval \<Rightarrow> (jsval \<Rightarrow> 's \<Rightarrow> exn option \<times> 's) \<Rightarrow> 's \<Rightarrow> exn option \<times> 's" where
  "forEachOf v f s = (case v of Arr xs \<Rightarrow> forEach f xs s | _ \<Rightarrow> (Some TypeError, s))"

definition ingredientItem :: "jsval \<Rightarrow> node list \<Rightarrow> exn option \<times> node list" where
  "ingredientItem ingredient container =
     (case ingredient of
        Str text \<Rightarrow> (None, container @ [TextNode text])
      | _ \<Rightarrow>
        if nullish ingredient then (Some TypeError, container)
        else (None, container @
               [IngredientNode
                  (ToString (js_or (getProp ingredient ''item'') (getProp ingredient ''name'')))
                  (if truthy (getProp ingredient ''notes'')
                   then Some (ToString (getProp ingredient ''notes'')) else None)
                  (ToString (js_or (getProp ingredient ''amount'') (Str [])))
                  (ToString (js_or (getProp ingredient ''unit'') (Str [])))]))"

definition displayIngredients :: "jsval \<Rightarrow> app \<Rightarrow> exn option \<times> app" where
  "displayIngredients ingredients_arg s =
     (case forEachOf ingredients_arg ingredientItem []
      of (r, container) \<Rightarrow> (r, s\<lparr>recipeIngredients := container\<rparr>))"

definition displayEquipment :: "jsval \<Rightarrow> app \<Rightarrow> exn option \<times> app" where
  "displayEquipment equipment_arg s =
     (case forEachOf equipment_arg
             (\<lambda>item container. (None, container @ [TextNode (textContent item)])) []
      of (r, container) \<Rightarrow> (r, s\<lparr>recipeEquipment := container\<rparr>))"

definition instructionItem :: "jsval \<Rightarrow> node list \<Rightarrow> exn option \<times> node list" where
  "instructionItem instruction container =
     (case instruction of
        Str text \<Rightarrow> (None, container @ [TextNode text])
      | _ \<Rightarrow>
        if nullish instruction then (Some TypeError, container)
        else (None, container @
               [InstructionNode
                  (ToString (getProp instruction ''instruction''))
                  (if truthy (js_or (getProp instruction ''time'')
                                    (getProp instruction ''temperature''))
                   then Some
                     (if truthy (getProp instruction ''time'')
                      then Some (ToString (getProp instruction ''time'')) else None,
                      if truthy (getProp instruction ''temperature'')
                      then Some (ToString (getProp instruction ''temperature'')) else None)
                   else None)]))"

definition displayInstructions :: "jsval \<Rightarrow> app \<Rightarrow> exn option \<times> app" where
  "displayInstructions instructions s =
     (case forEachOf instructions instructionItem []
      of (r, container) \<Rightarrow> (r, s\<lparr>recipeInstructions := container\<rparr>))"

definition displayTips :: "jsval \<Rightarrow> app \<Rightarrow> exn option \<times> app" where
  "displayTips tips s =
     (case forEachOf tips
             (\<lambda>tip container. (None, container @ [TextNode (textContent tip)])) []
      of (r, container) \<Rightarrow> (r, s\<lparr>recipeTips := container\<rparr>))"

text \<open>
  \<open>displayNutrition\<close> is called with a value that is not \<open>null\<close> or \<open>undefined\<close>
  (\<open>recipe.nutritionInfo || {}\<close>), so reading its four properties does not throw. The
  container's \<open>innerHTML\<close> is still empty after the loop exactly when no item was appended.
\<close>

definition displayNutrition :: "jsval \<Rightarrow> app \<Rightarrow> app" where
  "displayNutrition nutrition s =
     (let nutritionItems =
            [(js ''Calories'', getProp nutrition ''calories''),
             (js ''Protein'', getProp nutrition ''protein''),
             (js ''Carbs'', getProp nutrition ''carbs''),
             (js ''Fat'', getProp nutrition ''fat'')];
          container =
            snd (forEach
                   (\<lambda>(label, val) container.
                      (None, if truthy val
                             then container @ [NutritionNode label (ToString val)]
                             else container))
                   nutritionItems []);
          container = (if container = []
                       then [Paragraph (js ''Nutrition information not available'')]
                       else container)
      in s\<lparr>recipeNutrition := container\<rparr>)"

definition displayVariations :: "jsval \<Rightarrow> app \<Rightarrow> exn option \<times> app" where
  "displayVariations variations s =
     (case forEachOf variations
             (\<lambda>variation container. (None, container @ [TextNode (textContent variation)])) []
      of (Some e, container) \<Rightarrow> (Some e, s\<lparr>recipeVariations := container\<rparr>)
       | (None, container) \<Rightarrow>
           (None, s\<lparr>recipeVariations :=
                      (if variations = Arr []
                       then container @ [TextNode (js
                         ''Try adding different spices or substituting ingredients to make it your own!'')]
                       else container)\<rparr>))"

definition displayRecipe :: "jsval \<Rightarrow> app \<Rightarrow> exn option \<times> app" where
  "displayRecipe recipe s =
     (let s = s\<lparr>formContainer_display := js ''none'', recipeResult_hidden := False\<rparr>
      in if nullish recipe then (Some TypeError, s)
         else
           (let s = s\<lparr>recipeTitle :=
                        textContent (js_or (getProp recipe ''title'') (Str (js ''Generated Recipe''))),
                      recipeDescription :=
                        textContent (js_or (getProp recipe ''description'') (Str [])),
                      recipeTotalTime :=
                        ToString (js_or (getProp recipe ''totalTime'') (getProp recipe ''cookTime''))
                          @ js '' min'',
                      recipeServings := ToString (getProp recipe ''servings'') @ js '' servings'',
                      recipeDifficulty :=
                        textContent (js_or (getProp recipe ''difficulty'') (Str (js ''Medium''))),
                      recipeCuisine :=
                        textContent (js_or (getProp recipe ''cuisine'') (Str (js ''Mixed'')))\<rparr>
            in andThen (displayIngredients (js_or (getProp recipe ''ingredients'') (Arr [])) s) (\<lambda>s.
               andThen (displayEquipment (js_or (getProp recipe ''equipment'') (Arr [])) s) (\<lambda>s.
               andThen (displayInstructions (js_or (getProp recipe ''instructions'') (Arr [])) s) (\<lambda>s.
               andThen (displayTips (js_or (getProp recipe ''tips'') (Arr [])) s) (\<lambda>s.
               (let s = displayNutrition (js_or (getProp recipe ''nutritionInfo'') (Obj [])) s;
                    s = s\<lparr>recipeStorage :=
                            textContent (js_or (getProp recipe ''storage'')
                                               (Str (js ''Store in refrigerator'')))\<rparr>
                in displayVariations (js_or (getProp recipe ''variations'') (Arr [])) s)))))))"

subsection \<open>The controller\<close>

text \<open>
  \<open>showError\<close> and \<open>hideError\<close>. The timer that hides the message after eight seconds
  and the scrolling are presentation only and are left out; \<open>shown\<close> records every call.
\<close>

definition showError :: "message \<Rightarrow> app \<Rightarrow> app" where
  "showError msg s = s\<lparr>errorText := msg, errorMessage_hidden := False, shown := shown s @ [msg]\<rparr>"

definition hideError :: "app \<Rightarrow> app" where
  "hideError s = s\<lparr>errorMessage_hidden := True\<rparr>"

definition setLoadingState :: "bool \<Rightarrow> app \<Rightarrow> app" where
  "setLoadingState loading s =
     (if loading then s\<lparr>generateBtn_disabled := True, generateBtn_loading := True\<rparr>
      else s\<lparr>generateBtn_disabled := False, generateBtn_loading := False\<rparr>)"

text \<open>
  How \<open>fetch\<close> settles: it rejects (no response), or it yields a response with a status
  and a body that \<open>response.json()\<close> either parses or rejects.
\<close>

datatype body = NotJson | Json jsval

datatype outcome = Rejected | Response nat body

definition ok :: "nat \<Rightarrow> bool" where
  "ok status \<longleftrightarrow> 200 \<le> status \<and> status \<le> 299"

definition fetchAPI :: "outcome \<Rightarrow> exn + jsval" where
  "fetchAPI outcome =
     (case outcome of
        Rejected \<Rightarrow> Inl FetchFailed
      | Response status body \<Rightarrow>
          if \<not> ok status then
            (let errorData = (case body of NotJson \<Rightarrow> Obj [] | Json v \<Rightarrow> v)
             in if nullish errorData then Inl TypeError
                else Inl (Error (ToString
                       (js_or (getProp errorData ''error'')
                              (Str (js ''HTTP error! status: '' @ digits status))))))
          else (case body of NotJson \<Rightarrow> Inl SyntaxError | Json v \<Rightarrow> Inr v))"

text \<open>
  The \<open>catch\<close> block of \<open>generateRecipe\<close>: \<open>error.message || '...'\<close>. An exception of
  the engine carries the engine's own message, which is not empty.
\<close>

definition catchError :: "exn \<Rightarrow> app \<Rightarrow> app" where
  "catchError error s =
     showError
       (case error of
          Error msg \<Rightarrow>
            if msg \<noteq> [] then Text msg
            else Text (js ''Failed to generate recipe. Please try again.'')
        | _ \<Rightarrow> EngineMessage error) s"

text \<open>
  \<open>generateRecipe\<close> is asynchronous. \<open>generateRecipe_begin\<close> is what one call does before
  it waits: everything up to and including the \<open>fetch\<close> of the request, which \<open>posted\<close>
  records. \<open>generateRecipe_settled\<close> is what the same call does once \<open>fetch\<close> has settled.
  Other handlers may run in between.
\<close>

definition generateRecipe_begin :: "app \<Rightarrow> app" where
  "generateRecipe_begin s =
     (let formData = collectFormData s;
          validationErrors = validateForm formData
      in if length validationErrors > 0
         then showError (Text (join (js ''. '') validationErrors)) s
         else (let s = setLoadingState True s;
                   s = hideError s
               in s\<lparr>posted := posted s @ [formData]\<rparr>))"

definition generateRecipe_settled :: "outcome \<Rightarrow> app \<Rightarrow> app" where
  "generateRecipe_settled outcome s =
     (let s = (case fetchAPI outcome of
                 Inl error \<Rightarrow> catchError error s
               | Inr response \<Rightarrow>
                   if nullish response then catchError TypeError s
                   else if truthy (getProp response ''success'') then
                     (case displayRecipe (getProp response ''data'') s of
                        (Some error, s) \<Rightarrow> catchError error s
                      | (None, s) \<Rightarrow> s)
                   else catchError
                          (Error (ToString (js_or (getProp response ''error'')
                                                  (Str (js ''Failed to generate recipe''))))) s)
      in setLoadingState False s)"

definition resetForm :: "app \<Rightarrow> app" where
  "resetForm s =
     (let s = s\<lparr>formContainer_display := js ''block'', recipeResult_hidden := True,
                this_ingredients := [], this_selectedEquipment := []\<rparr>;
          s = updateIngredientsDisplay s;
          s = s\<lparr>item_selected := (\<lambda>item. False), checkbox_checked := (\<lambda>item. False)\<rparr>;
          s = s\<lparr>cookingTime_value := js ''30'', servings_value := js ''4'',
                difficulty_value := js ''Medium'', cuisine_value := [], mealType_value := [],
                dietaryRestrictions_value := [], ingredientInput_value := []\<rparr>
      in hideError s)"

text \<open>The \<open>keydown\<close> listener of the document (Escape, and Ctrl or Cmd with Enter).\<close>

record keyEvent =
  ev_key :: jsstring
  ev_ctrlKey :: bool
  ev_metaKey :: bool

definition keydown :: "keyEvent \<Rightarrow> app \<Rightarrow> app" where
  "keydown event s =
     (let s = (if ev_key event = js ''Escape'' \<and> \<not> recipeResult_hidden s
               then resetForm s else s)
      in if (ev_ctrlKey event \<or> ev_metaKey event) \<and> ev_key event = js ''Enter''
         then (if recipeForm_display s \<noteq> js ''none'' then generateRecipe_begin s else s)
         else s)"

text \<open>
  What happens to the equipment selection: the checkbox of an item is switched on or off
  and its handler calls \<open>updateEquipmentSelection\<close> with the item's name, or the form is
  reset.
\<close>

datatype selection_op = ToggleOn nat jsstring | ToggleOff nat jsstring | Reset

fun perform :: "selection_op \<Rightarrow> app \<Rightarrow> app" where
  "perform (ToggleOn item name) s =
     updateEquipmentSelection item name (s\<lparr>checkbox_checked := (checkbox_checked s)(item := True)\<rparr>)"
| "perform (ToggleOff item name) s =
     updateEquipmentSelection item name (s\<lparr>checkbox_checked := (checkbox_checked s)(item := False)\<rparr>)"
| "perform Reset s = resetForm s"

text \<open>
  An example page right after the constructor of \<open>RecipeGenerator\<close> has run: both lists
  empty, the controls holding the values \<open>resetForm\<close> restores, the form shown, no
  error shown and nothing posted.
\<close>

definition loaded :: app where
  "loaded =
     \<lparr>this_ingredients = [], this_selectedEquipment = [],
      ingredientInput_value = [], cookingTime_value = js ''30'', servings_value = js ''4'',
      difficulty_value = js ''Medium'', cuisine_value = [], mealType_value = [],
      dietaryRestrictions_value = [],
      checkbox_checked = (\<lambda>item. False), item_selected = (\<lambda>item. False),
      ingredientsList = [],
      generateBtn_disabled = False, generateBtn_loading = False,
      errorMessage_hidden = True, errorText = Text [],
      recipeForm_display = [], formContainer_display = [], recipeResult_hidden = True,
      recipeTitle = [], recipeDescription = [], recipeTotalTime = [], recipeServings = [],
      recipeDifficulty = [], recipeCuisine = [],
      recipeIngredients = [], recipeEquipment = [], recipeInstructions = [], recipeTips = [],
      recipeNutrition = [], recipeStorage = [], recipeVariations = [],
      posted = [], shown = []\<rparr>"

text \<open>The same page with one ingredient entered.\<close>

definition one_egg :: app where
  "one_egg = loaded\<lparr>this_ingredients := [js ''egg''], ingredientsList := [js ''egg'']\<rparr>"

text \<open>Enter pressed with the Ctrl key held.\<close>

definition ctrlEnter :: keyEvent where
  "ctrlEnter = \<lparr>ev_key = js ''Enter'', ev_ctrlKey = True, ev_metaKey = False\<rparr>"

text \<open>
  Shapes of a list field of a recipe: missing (or otherwise falsy) or an array, and, for
  the fields whose entries are inspected, an array without \<open>null\<close> entries.
\<close>

definition absent_or_array :: "jsval \<Rightarrow> bool" where
  "absent_or_array v = (case v of Arr xs \<Rightarrow> True | _ \<Rightarrow> \<not> truthy v)"

definition absent_or_entries :: "jsval \<Rightarrow> bool" where
  "absent_or_entries v =
     (case v of Arr xs \<Rightarrow> list_all (\<lambda>x. \<not> nullish x) xs | _ \<Rightarrow> \<not> truthy v)"

section \<open>Basic facts\<close>

declare digits.simps [simp del]

lemma js_lt_simps [simp]:
  "js_lt NaN b = False" "js_lt a NaN = False" "js_lt (Finite x) (Finite y) = (x < y)"
  by (auto simp: js_lt_def split: jsnum.splits)

lemma js_gt_simps [simp]:
  "js_gt NaN b = False" "js_gt a NaN = False" "js_gt (Finite x) (Finite y) = (x > y)"
  by (auto simp: js_gt_def split: jsnum.splits)

lemma messages_differ:
  "js ''Cooking time must be between 5 and 480 minutes'' \<noteq> js ''Please add at least one ingredient''"
  "js ''Servings must be between 1 and 20'' \<noteq> js ''Please add at least one ingredient''"
  "js ''Cooking time must be between 5 and 480 minutes'' \<noteq> js ''Servings must be between 1 and 20''"
  by (simp_all add: js_def)

lemma parseInt_abc: "parseInt (js ''abc'') = NaN"
  by code_simp

lemma parseInt_empty: "parseInt [] = NaN"
  by code_simp

lemma parseInt_30: "parseInt (js ''30'') = Finite 30"
  by code_simp

lemma parseInt_4: "parseInt (js ''4'') = Finite 4"
  by code_simp

lemma count_list_distinct: "distinct xs \<Longrightarrow> x \<in> set xs \<Longrightarrow> count_list xs x = 1"
  by (induction xs) auto

section \<open>Validation\<close>

text \<open>
  Claim C3. \<open>validateForm\<close> checks its three rules one after the other, none depending on
  another, and returns the message of every rule that is violated, in the order of the
  rules. With no ingredient, 30 minutes and 4 servings the result is exactly the message
  about ingredients; with one ingredient, 3 minutes and 25 servings it is exactly the two
  messages about cooking time and servings. The last conjunct is the general statement for
  a payload whose cooking time and servings are integers.
\<close>

theorem validateForm_reports_each_violation:
  "validateForm \<lparr>ingredients = [], cookingTime = Finite 30, servings = Finite 4,
       difficulty = d, cuisine = c, mealType = m, dietaryRestrictions = r, equipment = e\<rparr>
     = [js ''Please add at least one ingredient'']
   \<and> validateForm \<lparr>ingredients = [js ''egg''], cookingTime = Finite 3, servings = Finite 25,
       difficulty = d, cuisine = c, mealType = m, dietaryRestrictions = r, equipment = e\<rparr>
     = [js ''Cooking time must be between 5 and 480 minutes'',
        js ''Servings must be between 1 and 20'']
   \<and> validateForm (p\<lparr>cookingTime := Finite t, servings := Finite n\<rparr>)
     = (if ingredients p = [] then [js ''Please add at least one ingredient''] else [])
       @ (if 5 \<le> t \<and> t \<le> 480 then []
          else [js ''Cooking time must be between 5 and 480 minutes''])
       @ (if 1 \<le> n \<and> n \<le> 20 then [] else [js ''Servings must be between 1 and 20''])"
  by (auto simp: validateForm_def js_def)

text \<open>
  A cooking time or a number of servings that is \<open>NaN\<close> is never reported: both
  comparisons of the rule are false.
\<close>

lemma validateForm_NaN:
  "js ''Cooking time must be between 5 and 480 minutes''
     \<notin> set (validateForm (p\<lparr>cookingTime := NaN\<rparr>))"
  "js ''Servings must be between 1 and 20'' \<notin> set (validateForm (p\<lparr>servings := NaN\<rparr>))"
  using messages_differ by (auto simp: validateForm_def Let_def)

lemma failed_parse_not_reported:
  "parseInt (cookingTime_value s) = NaN \<Longrightarrow>
     js ''Cooking time must be between 5 and 480 minutes''
       \<notin> set (validateForm (collectFormData s))"
  "parseInt (servings_value s) = NaN \<Longrightarrow>
     js ''Servings must be between 1 and 20'' \<notin> set (validateForm (collectFormData s))"
proof -
  show "js ''Cooking time must be between 5 and 480 minutes''
          \<notin> set (validateForm (collectFormData s))"
    if "parseInt (cookingTime_value s) = NaN"
    using that validateForm_NaN(1) [of "collectFormData s"]
    by (simp add: collectFormData_def)
  show "js ''Servings must be between 1 and 20'' \<notin> set (validateForm (collectFormData s))"
    if "parseInt (servings_value s) = NaN"
    using that validateForm_NaN(2) [of "collectFormData s"]
    by (simp add: collectFormData_def)
qed

text \<open>
  Claim C1 says that a cooking time or servings text that does not parse is rejected by
  the range rule. The code does not do that. On the page with one ingredient, the cooking
  time text \<open>abc\<close> and an empty servings text, \<open>collectFormData\<close> yields \<open>NaN\<close> for both
  numbers, \<open>validateForm\<close> returns no message at all, and \<open>generateRecipe\<close> goes on to
  post that payload.
\<close>

theorem unparsable_number_passes_validateForm:
  "cookingTime (collectFormData (one_egg\<lparr>cookingTime_value := js ''abc'', servings_value := []\<rparr>)) = NaN
   \<and> servings (collectFormData (one_egg\<lparr>cookingTime_value := js ''abc'', servings_value := []\<rparr>)) = NaN
   \<and> validateForm (collectFormData (one_egg\<lparr>cookingTime_value := js ''abc'', servings_value := []\<rparr>)) = []
   \<and> posted (generateRecipe_begin (one_egg\<lparr>cookingTime_value := js ''abc'', servings_value := []\<rparr>))
       = [collectFormData (one_egg\<lparr>cookingTime_value := js ''abc'', servings_value := []\<rparr>)]"
  by (simp add: generateRecipe_begin_def collectFormData_def validateForm_def parseInt_abc
        parseInt_empty one_egg_def loaded_def setLoadingState_def hideError_def)

section \<open>Selection state\<close>

subsection \<open>Trimming\<close>

lemma trim_decomposition:
  "\<exists>pre post. s = pre @ trim s @ post
     \<and> (\<forall>c\<in>set pre. isWhiteSpace c) \<and> (\<forall>c\<in>set post. isWhiteSpace c)"
proof -
  let ?t = "dropWhile isWhiteSpace s"
  have front: "s = takeWhile isWhiteSpace s @ ?t"
    by simp
  have "rev ?t = takeWhile isWhiteSpace (rev ?t) @ dropWhile isWhiteSpace (rev ?t)"
    by simp
  then have "?t = trim s @ rev (takeWhile isWhiteSpace (rev ?t))"
    unfolding trim_def by (metis rev_append rev_rev_ident)
  with front
  have "s = takeWhile isWhiteSpace s @ trim s @ rev (takeWhile isWhiteSpace (rev ?t))"
    by simp
  moreover have "\<forall>c\<in>set (takeWhile isWhiteSpace s). isWhiteSpace c"
    by (auto dest: set_takeWhileD)
  moreover have "\<forall>c\<in>set (rev (takeWhile isWhiteSpace (rev ?t))). isWhiteSpace c"
    by (auto dest: set_takeWhileD)
  ultimately show ?thesis
    by blast
qed

lemma trim_ends:
  assumes ne: "trim s \<noteq> []"
  shows "\<not> isWhiteSpace (hd (trim s)) \<and> \<not> isWhiteSpace (last (trim s))"
proof -
  let ?t = "dropWhile isWhiteSpace s"
  let ?u = "dropWhile isWhiteSpace (rev ?t)"
  have u: "?u \<noteq> []"
    using ne by (simp add: trim_def)
  then have "\<not> isWhiteSpace (hd ?u)"
    by (rule hd_dropWhile)
  moreover have "last (trim s) = hd ?u"
    using u by (simp add: trim_def last_rev)
  ultimately have at_end: "\<not> isWhiteSpace (last (trim s))"
    by simp
  have "?t \<noteq> []"
  proof
    assume a: "?t = []"
    have "?u = []" unfolding a by simp
    with u show False by blast
  qed
  then have at_start: "\<not> isWhiteSpace (hd ?t)"
    by (rule hd_dropWhile)
  have "rev ?t = takeWhile isWhiteSpace (rev ?t) @ ?u"
    by simp
  then have "?t = rev ?u @ rev (takeWhile isWhiteSpace (rev ?t))"
    by (metis rev_append rev_rev_ident)
  then have "\<exists>zs. ?t = trim s @ zs"
    by (auto simp: trim_def)
  then obtain zs where "?t = trim s @ zs" ..
  then have "hd ?t = hd (trim s)"
    using ne by (metis hd_append2)
  with at_start at_end show ?thesis
    by simp
qed

lemma trim_rice: "trim (js '' rice  '') = js ''rice''"
  by code_simp

subsection \<open>Ingredients\<close>

lemma addIngredient_unfold:
  "addIngredient s =
     (if trim (ingredientInput_value s) = []
         \<or> trim (ingredientInput_value s) \<in> set (this_ingredients s)
      then s
      else s\<lparr>this_ingredients := this_ingredients s @ [trim (ingredientInput_value s)],
             ingredientsList := this_ingredients s @ [trim (ingredientInput_value s)],
             ingredientInput_value := []\<rparr>)"
  by (simp add: addIngredient_def updateIngredientsDisplay_def Let_def)

text \<open>
  Claim C4. \<open>addIngredient\<close> takes the text of the ingredient input (\<open>v\<close> below) and trims
  it: the trimmed text is \<open>v\<close> without a run of white space at each end, and it neither
  starts nor ends with white space. When the trimmed text is empty or already in the list,
  nothing changes at all; otherwise the trimmed text is appended at the end (and the input
  is cleared). Adding the same text twice gives the same list as adding it once, the
  entries that were there keep their places, and in a list without duplicates the
  ingredient then occurs exactly once.
\<close>

theorem addIngredient_trims_and_appends_once:
  "addIngredient s =
     (if trim (ingredientInput_value s) = []
         \<or> trim (ingredientInput_value s) \<in> set (this_ingredients s)
      then s
      else s\<lparr>this_ingredients := this_ingredients s @ [trim (ingredientInput_value s)],
             ingredientsList := this_ingredients s @ [trim (ingredientInput_value s)],
             ingredientInput_value := []\<rparr>)
   \<and> (\<exists>pre post. v = pre @ trim v @ post
          \<and> list_all isWhiteSpace pre \<and> list_all isWhiteSpace post)
   \<and> (trim v = [] \<or> (\<not> isWhiteSpace (hd (trim v)) \<and> \<not> isWhiteSpace (last (trim v))))
   \<and> (let s1 = addIngredient (s\<lparr>ingredientInput_value := v\<rparr>);
           s2 = addIngredient (s1\<lparr>ingredientInput_value := v\<rparr>)
       in this_ingredients s2 = this_ingredients s1
          \<and> prefix (this_ingredients s) (this_ingredients s1)
          \<and> (distinct (this_ingredients s) \<and> trim v \<noteq> []
               \<longrightarrow> distinct (this_ingredients s2)
                   \<and> count_list (this_ingredients s2) (trim v) = 1))"
proof -
  have twice:
    "this_ingredients (addIngredient (addIngredient (s\<lparr>ingredientInput_value := v\<rparr>)
                                       \<lparr>ingredientInput_value := v\<rparr>))
       = this_ingredients (addIngredient (s\<lparr>ingredientInput_value := v\<rparr>))"
    by (simp add: addIngredient_unfold)
  have pre:
    "prefix (this_ingredients s) (this_ingredients (addIngredient (s\<lparr>ingredientInput_value := v\<rparr>)))"
    by (simp add: addIngredient_unfold)
  have once:
    "distinct (this_ingredients (addIngredient (s\<lparr>ingredientInput_value := v\<rparr>)))
       \<and> count_list (this_ingredients (addIngredient (s\<lparr>ingredientInput_value := v\<rparr>))) (trim v) = 1"
    if "distinct (this_ingredients s)" "trim v \<noteq> []"
    using that by (auto simp: addIngredient_unfold count_list_distinct)
  have dec:
    "\<exists>pre post. v = pre @ trim v @ post \<and> list_all isWhiteSpace pre \<and> list_all isWhiteSpace post"
    using trim_decomposition [of v] by (simp add: list_all_iff)
  have ends: "trim v = [] \<or> (\<not> isWhiteSpace (hd (trim v)) \<and> \<not> isWhiteSpace (last (trim v)))"
    using trim_ends [of v] by blast
  show ?thesis
    unfolding Let_def twice using addIngredient_unfold [of s] pre once dec ends by blast
qed

theorem addIngredient_trims_and_appends_once_witness:
  "distinct (this_ingredients one_egg) \<and> trim (js '' rice  '') \<noteq> []
   \<and> this_ingredients
        (addIngredient (addIngredient (one_egg\<lparr>ingredientInput_value := js '' rice  ''\<rparr>)
                          \<lparr>ingredientInput_value := js '' rice  ''\<rparr>))
       = [js ''egg'', js ''rice'']
   \<and> count_list [js ''egg'', js ''rice''] (js ''rice'') = 1"
proof -
  have ne: "js ''rice'' \<noteq> js ''egg''" "js ''rice'' \<noteq> []"
    by (simp_all add: js_def)
  show ?thesis
    using addIngredient_trims_and_appends_once [of one_egg "js '' rice  ''"] ne
    by (simp add: Let_def one_egg_def loaded_def trim_rice addIngredient_unfold)
qed

text \<open>
  Claim C9. \<open>removeIngredient(name)\<close> leaves no entry equal to \<open>name\<close>, keeps every other
  entry as often as it was there and in the same relative order, and does not change the
  list when \<open>name\<close> is not in it.
\<close>

theorem removeIngredient_removes_every_entry:
  "this_ingredients (removeIngredient name s)
     = filter (\<lambda>ing. ing \<noteq> name) (this_ingredients s)
   \<and> name \<notin> set (this_ingredients (removeIngredient name s))
   \<and> (\<forall>x. x \<noteq> name \<longrightarrow>
         count_list (this_ingredients (removeIngredient name s)) x
           = count_list (this_ingredients s) x)
   \<and> subseq (this_ingredients (removeIngredient name s)) (this_ingredients s)
   \<and> (name \<notin> set (this_ingredients s) \<longrightarrow>
         this_ingredients (removeIngredient name s) = this_ingredients s)"
proof -
  have f: "this_ingredients (removeIngredient name s)
             = filter (\<lambda>ing. ing \<noteq> name) (this_ingredients s)"
    by (simp add: removeIngredient_def updateIngredientsDisplay_def)
  have c: "x \<noteq> name \<Longrightarrow> count_list (filter (\<lambda>ing. ing \<noteq> name) xs) x = count_list xs x"
    for x and xs :: "jsstring list"
    by (induction xs) auto
  have n: "name \<notin> set xs \<Longrightarrow> filter (\<lambda>ing. ing \<noteq> name) xs = xs"
    for xs :: "jsstring list"
    by (induction xs) auto
  show ?thesis
    unfolding f using c n by auto
qed

theorem removeIngredient_removes_every_entry_witness:
  "js ''rice'' \<notin> set (this_ingredients one_egg)
   \<and> this_ingredients (removeIngredient (js ''rice'') one_egg) = this_ingredients one_egg
   \<and> js ''egg'' \<noteq> js ''rice''
   \<and> count_list (this_ingredients (removeIngredient (js ''rice'') one_egg)) (js ''egg'')
       = count_list (this_ingredients one_egg) (js ''egg'')"
proof -
  note t = removeIngredient_removes_every_entry [of "js ''rice''" one_egg]
  have h1: "js ''rice'' \<notin> set (this_ingredients one_egg)"
    by (simp add: one_egg_def loaded_def js_def)
  have h2: "js ''egg'' \<noteq> js ''rice''"
    by (simp add: js_def)
  from t h1 h2 show ?thesis
    by blast
qed

subsection \<open>Equipment\<close>

lemma updateEquipmentSelection_distinct:
  "distinct (this_selectedEquipment s)
     \<Longrightarrow> distinct (this_selectedEquipment (updateEquipmentSelection item name s))"
  by (simp add: updateEquipmentSelection_def Let_def)

lemma perform_distinct:
  "distinct (this_selectedEquipment s) \<Longrightarrow> distinct (this_selectedEquipment (perform op s))"
  by (cases op)
     (simp_all add: updateEquipmentSelection_distinct resetForm_def
        updateIngredientsDisplay_def hideError_def Let_def)

lemma fold_perform_distinct:
  "distinct (this_selectedEquipment s)
     \<Longrightarrow> distinct (this_selectedEquipment (fold perform ops s))"
  by (induction ops arbitrary: s) (simp_all add: perform_distinct)

text \<open>
  Claim C10. Starting from the empty selection, after any sequence of switching items on,
  switching items off and resetting the form, no equipment name occurs twice in the
  selection; and switching an item on twice leaves the same state as switching it on once.
\<close>

theorem selectedEquipment_never_has_duplicates:
  "distinct (this_selectedEquipment (fold perform ops (s\<lparr>this_selectedEquipment := []\<rparr>)))
   \<and> perform (ToggleOn item name) (perform (ToggleOn item name) s)
       = perform (ToggleOn item name) s"
proof
  show "distinct (this_selectedEquipment (fold perform ops (s\<lparr>this_selectedEquipment := []\<rparr>)))"
    by (rule fold_perform_distinct) simp
  show "perform (ToggleOn item name) (perform (ToggleOn item name) s)
          = perform (ToggleOn item name) s"
    by (simp add: updateEquipmentSelection_def Let_def)
qed

section \<open>Rendering\<close>

subsection \<open>When rendering completes\<close>

lemma forEach_total: "(\<And>x c. fst (f x c) = None) \<Longrightarrow> fst (forEach f xs c) = None"
proof (induction xs arbitrary: c)
  case Nil
  show ?case by simp
next
  case (Cons x xs)
  obtain c' where "f x c = (None, c')"
    using Cons.prems [of x c] by (cases "f x c") auto
  then show ?case
    using Cons by simp
qed

lemma forEach_entries:
  "(\<And>x c. x \<in> set xs \<Longrightarrow> fst (f x c) = None) \<Longrightarrow> fst (forEach f xs c) = None"
proof (induction xs arbitrary: c)
  case Nil
  show ?case by simp
next
  case (Cons x xs)
  obtain c' where "f x c = (None, c')"
    using Cons.prems [of x c] by (cases "f x c") auto
  then show ?case
    using Cons by simp
qed

lemma forEachOf_Nil: "forEachOf (Arr []) f c = (None, c)"
  by (simp add: forEachOf_def)

lemma ingredientItem_ok: "\<not> nullish x \<Longrightarrow> fst (ingredientItem x c) = None"
  by (cases x) (simp_all add: ingredientItem_def nullish_def)

lemma instructionItem_ok: "\<not> nullish x \<Longrightarrow> fst (instructionItem x c) = None"
  by (cases x) (simp_all add: instructionItem_def nullish_def)

lemma or_array: "absent_or_array v \<Longrightarrow> \<exists>xs. js_or v (Arr []) = Arr xs"
  by (cases v) (auto simp: absent_or_array_def js_or_def)

lemma or_entries:
  "absent_or_entries v \<Longrightarrow> \<exists>xs. js_or v (Arr []) = Arr xs \<and> (\<forall>x\<in>set xs. \<not> nullish x)"
  by (cases v) (auto simp: absent_or_entries_def js_or_def list_all_iff)

lemma displayIngredients_fst:
  "fst (displayIngredients v s) = fst (forEachOf v ingredientItem [])"
  by (simp add: displayIngredients_def split_beta)

lemma displayInstructions_fst:
  "fst (displayInstructions v s) = fst (forEachOf v instructionItem [])"
  by (simp add: displayInstructions_def split_beta)

lemma displayEquipment_fst:
  "fst (displayEquipment v s)
     = fst (forEachOf v (\<lambda>item container. (None, container @ [TextNode (textContent item)])) [])"
  by (simp add: displayEquipment_def split_beta)

lemma displayTips_fst:
  "fst (displayTips v s)
     = fst (forEachOf v (\<lambda>item container. (None, container @ [TextNode (textContent item)])) [])"
  by (simp add: displayTips_def split_beta)

lemma displayVariations_fst:
  "fst (displayVariations v s)
     = fst (forEachOf v (\<lambda>item container. (None, container @ [TextNode (textContent item)])) [])"
  by (cases "forEachOf v (\<lambda>item container. (None, container @ [TextNode (textContent item)])) []")
     (auto simp: displayVariations_def split: option.splits)

lemma text_items:
  assumes "absent_or_array v"
  shows "fst (forEachOf (js_or v (Arr []))
                (\<lambda>item container. (None, container @ [TextNode (textContent item)])) c) = None"
proof -
  from assms obtain xs where "js_or v (Arr []) = Arr xs"
    by (auto dest: or_array)
  then show ?thesis
    by (simp add: forEachOf_def forEach_total)
qed

lemma ingredient_items:
  assumes "absent_or_entries v"
  shows "fst (forEachOf (js_or v (Arr [])) ingredientItem c) = None"
proof -
  from assms obtain xs where xs: "js_or v (Arr []) = Arr xs" "\<forall>x\<in>set xs. \<not> nullish x"
    by (auto dest: or_entries)
  have "fst (forEach ingredientItem xs c) = None"
    using xs(2) by (intro forEach_entries ingredientItem_ok) blast
  then show ?thesis
    by (simp add: forEachOf_def xs(1))
qed

lemma instruction_items:
  assumes "absent_or_entries v"
  shows "fst (forEachOf (js_or v (Arr [])) instructionItem c) = None"
proof -
  from assms obtain xs where xs: "js_or v (Arr []) = Arr xs" "\<forall>x\<in>set xs. \<not> nullish x"
    by (auto dest: or_entries)
  have "fst (forEach instructionItem xs c) = None"
    using xs(2) by (intro forEach_entries instructionItem_ok) blast
  then show ?thesis
    by (simp add: forEachOf_def xs(1))
qed

lemma andThen_ok: "fst r = None \<Longrightarrow> (\<And>s. fst (f s) = None) \<Longrightarrow> fst (andThen r f) = None"
  by (cases r) (auto simp: andThen_def)

text \<open>
  \<open>displayRecipe\<close> runs to its end on every recipe (a value other than \<open>null\<close> and
  \<open>undefined\<close>) whose list fields are each missing or an array, whatever else is missing.
\<close>

lemma displayRecipe_completes:
  assumes "\<not> nullish recipe"
    and "absent_or_entries (getProp recipe ''ingredients'')"
    and "absent_or_array (getProp recipe ''equipment'')"
    and "absent_or_entries (getProp recipe ''instructions'')"
    and "absent_or_array (getProp recipe ''tips'')"
    and "absent_or_array (getProp recipe ''variations'')"
  shows "fst (displayRecipe recipe s) = None"
  using assms(1) unfolding displayRecipe_def Let_def
  by (simp add: andThen_ok displayIngredients_fst displayEquipment_fst displayInstructions_fst
        displayTips_fst displayVariations_fst text_items ingredient_items instruction_items
        assms(2-))

subsection \<open>The total time\<close>

lemma displayIngredients_frame:
  "displayIngredients v s =
     (fst (displayIngredients v s),
      s\<lparr>recipeIngredients := recipeIngredients (snd (displayIngredients v s))\<rparr>)"
  by (simp add: displayIngredients_def split: prod.splits)

lemma displayEquipment_frame:
  "displayEquipment v s =
     (fst (displayEquipment v s),
      s\<lparr>recipeEquipment := recipeEquipment (snd (displayEquipment v s))\<rparr>)"
  by (simp add: displayEquipment_def split: prod.splits)

lemma displayInstructions_frame:
  "displayInstructions v s =
     (fst (displayInstructions v s),
      s\<lparr>recipeInstructions := recipeInstructions (snd (displayInstructions v s))\<rparr>)"
  by (simp add: displayInstructions_def split: prod.splits)

lemma displayTips_frame:
  "displayTips v s =
     (fst (displayTips v s), s\<lparr>recipeTips := recipeTips (snd (displayTips v s))\<rparr>)"
  by (simp add: displayTips_def split: prod.splits)

lemma displayVariations_frame:
  "displayVariations v s =
     (fst (displayVariations v s),
      s\<lparr>recipeVariations := recipeVariations (snd (displayVariations v s))\<rparr>)"
  by (simp add: displayVariations_def split: prod.splits option.splits)

lemma displayNutrition_frame:
  "displayNutrition v s = s\<lparr>recipeNutrition := recipeNutrition (displayNutrition v s)\<rparr>"
  by (simp add: displayNutrition_def Let_def)

lemma andThen_snd_cases:
  "P (snd r) \<Longrightarrow> (\<And>s. P s \<Longrightarrow> P (snd (f s))) \<Longrightarrow> P (snd (andThen r f))"
  by (auto simp: andThen_def split: prod.splits option.splits)

text \<open>
  Whether or not a later step throws, the total time shown is the string of
  \<open>recipe.totalTime || recipe.cookTime\<close> followed by \<open>min\<close>: the total time when it is
  truthy, otherwise the cook time.
\<close>

lemma displayRecipe_totalTime:
  assumes "\<not> nullish recipe"
  shows "recipeTotalTime (snd (displayRecipe recipe s)) =
           ToString (js_or (getProp recipe ''totalTime'') (getProp recipe ''cookTime''))
             @ js '' min''"
proof -
  let ?P = "\<lambda>s'. recipeTotalTime s' =
              ToString (js_or (getProp recipe ''totalTime'') (getProp recipe ''cookTime''))
                @ js '' min''"
  have I: "?P s' \<Longrightarrow> ?P (snd (displayIngredients v s'))" for v s'
    by (subst displayIngredients_frame) simp
  have E: "?P s' \<Longrightarrow> ?P (snd (displayEquipment v s'))" for v s'
    by (subst displayEquipment_frame) simp
  have N: "?P s' \<Longrightarrow> ?P (snd (displayInstructions v s'))" for v s'
    by (subst displayInstructions_frame) simp
  have T: "?P s' \<Longrightarrow> ?P (snd (displayTips v s'))" for v s'
    by (subst displayTips_frame) simp
  have V: "?P s' \<Longrightarrow> ?P (snd (displayVariations v s'))" for v s'
    by (subst displayVariations_frame) simp
  have U: "?P s' \<Longrightarrow> ?P (displayNutrition v s')" for v s'
    by (subst displayNutrition_frame) simp
  show ?thesis
    using assms unfolding displayRecipe_def Let_def
    apply simp
    apply (rule andThen_snd_cases)
     apply (rule I)
     apply simp
    apply (rule andThen_snd_cases)
     apply (rule E)
     apply assumption
    apply (rule andThen_snd_cases)
     apply (rule N)
     apply assumption
    apply (rule andThen_snd_cases)
     apply (rule T)
     apply assumption
    apply (rule V)
    apply (simp add: U)
    done
qed

text \<open>
  Claim C5 says that the total time displays as empty when the response has neither
  \<open>totalTime\<close> nor \<open>cookTime\<close>. The code does not do that: for the empty response \<open>{}\<close>
  rendering completes and the total time element shows the text \<open>undefined min\<close>.
\<close>

theorem displayRecipe_without_times_shows_undefined:
  "fst (displayRecipe (Obj []) s) = None
   \<and> recipeTotalTime (snd (displayRecipe (Obj []) s)) = js ''undefined min''"
  by (simp add: displayRecipe_def Let_def andThen_def nullish_def js_or_def textContent_def
        forEachOf_Nil displayIngredients_def displayEquipment_def displayInstructions_def
        displayTips_def displayNutrition_def displayVariations_def js_def)

subsection \<open>Defaults\<close>

text \<open>
  Claim C6. Rendering the empty response \<open>{}\<close> throws nothing and leaves the difficulty
  \<open>Medium\<close>, the cuisine \<open>Mixed\<close>, the storage text \<open>Store in refrigerator\<close>, as variations
  the one placeholder suggestion, and as nutrition the one placeholder message.
\<close>

theorem displayRecipe_empty_response_defaults:
  "fst (displayRecipe (Obj []) s) = None
   \<and> recipeDifficulty (snd (displayRecipe (Obj []) s)) = js ''Medium''
   \<and> recipeCuisine (snd (displayRecipe (Obj []) s)) = js ''Mixed''
   \<and> recipeStorage (snd (displayRecipe (Obj []) s)) = js ''Store in refrigerator''
   \<and> recipeVariations (snd (displayRecipe (Obj []) s)) =
        [TextNode (js
           ''Try adding different spices or substituting ingredients to make it your own!'')]
   \<and> recipeNutrition (snd (displayRecipe (Obj []) s)) =
        [Paragraph (js ''Nutrition information not available'')]"
  by (simp add: displayRecipe_def Let_def andThen_def nullish_def js_or_def textContent_def
        forEachOf_Nil displayIngredients_def displayEquipment_def displayInstructions_def
        displayTips_def displayNutrition_def displayVariations_def js_def)

subsection \<open>Nutrition\<close>

text \<open>
  Claim C7. The nutrition section holds one item for each of calories, protein, carbs and
  fat whose value is truthy, in this order, labelled and showing the value; when none of
  the four is truthy it holds the single line \<open>Nutrition information not available\<close>.
  Two examples follow the general statement: a mapping with zero calories, a protein
  text, an unrecognized field and a fat number shows protein and fat only, and a mapping
  with nothing but zero calories shows the placeholder.
\<close>

theorem displayNutrition_shows_truthy_fields:
  "recipeNutrition (displayNutrition nutrition s) =
     (let present = filter (\<lambda>(label, val). truthy val)
            [(js ''Calories'', getProp nutrition ''calories''),
             (js ''Protein'', getProp nutrition ''protein''),
             (js ''Carbs'', getProp nutrition ''carbs''),
             (js ''Fat'', getProp nutrition ''fat'')]
      in if present = [] then [Paragraph (js ''Nutrition information not available'')]
         else map (\<lambda>(label, val). NutritionNode label (ToString val)) present)
   \<and> recipeNutrition
        (displayNutrition
           (Obj [(js ''fat'', Num 9), (js ''calories'', Num 0), (js ''fiber'', Num 3),
                 (js ''protein'', Str (js ''12g''))]) s)
       = [NutritionNode (js ''Protein'') (js ''12g''), NutritionNode (js ''Fat'') (js ''9'')]
   \<and> recipeNutrition (displayNutrition (Obj [(js ''calories'', Num 0)]) s)
       = [Paragraph (js ''Nutrition information not available'')]"
proof -
  have general:
    "recipeNutrition (displayNutrition nutrition s) =
       (let present = filter (\<lambda>(label, val). truthy val)
              [(js ''Calories'', getProp nutrition ''calories''),
               (js ''Protein'', getProp nutrition ''protein''),
               (js ''Carbs'', getProp nutrition ''carbs''),
               (js ''Fat'', getProp nutrition ''fat'')]
        in if present = [] then [Paragraph (js ''Nutrition information not available'')]
           else map (\<lambda>(label, val). NutritionNode label (ToString val)) present)"
    by (simp add: displayNutrition_def Let_def)
  have mixed:
    "recipeNutrition
        (displayNutrition
           (Obj [(js ''fat'', Num 9), (js ''calories'', Num 0), (js ''fiber'', Num 3),
                 (js ''protein'', Str (js ''12g''))]) s)
       = [NutritionNode (js ''Protein'') (js ''12g''), NutritionNode (js ''Fat'') (js ''9'')]"
    by (simp add: displayNutrition_def Let_def js_def digits.simps)
  have none:
    "recipeNutrition (displayNutrition (Obj [(js ''calories'', Num 0)]) s)
       = [Paragraph (js ''Nutrition information not available'')]"
    by (simp add: displayNutrition_def Let_def js_def)
  from general mixed none show ?thesis
    by blast
qed

section \<open>The controller\<close>

subsection \<open>Submitting twice\<close>

lemma one_egg_valid: "validateForm (collectFormData one_egg) = []"
  by (simp add: collectFormData_def validateForm_def one_egg_def loaded_def parseInt_30
        parseInt_4)

text \<open>
  A call of \<open>generateRecipe\<close> on a valid form posts the request. It never looks at the
  state of the button.
\<close>

lemma generateRecipe_begin_posts:
  "validateForm (collectFormData s) = [] \<Longrightarrow>
   generateRecipe_begin s =
     s\<lparr>generateBtn_disabled := True, generateBtn_loading := True,
       errorMessage_hidden := True, posted := posted s @ [collectFormData s]\<rparr>"
  by (simp add: generateRecipe_begin_def setLoadingState_def hideError_def Let_def)

lemma collectFormData_begin:
  "validateForm (collectFormData s) = [] \<Longrightarrow>
   collectFormData (generateRecipe_begin s) = collectFormData s"
  by (simp add: generateRecipe_begin_posts) (simp add: collectFormData_def)

lemma generateRecipe_begin_twice:
  assumes "validateForm (collectFormData s) = []"
  shows "posted (generateRecipe_begin (generateRecipe_begin s))
           = posted s @ [collectFormData s, collectFormData s]"
proof -
  have "validateForm (collectFormData (generateRecipe_begin s)) = []"
    using assms by (simp add: collectFormData_begin)
  then show ?thesis
    using assms
    by (simp add: generateRecipe_begin_posts [of "generateRecipe_begin s"]
          collectFormData_begin [OF assms])
       (simp add: generateRecipe_begin_posts)
qed

text \<open>
  Claim C2 says that a second submit while the first request is outstanding posts nothing.
  The code does not do that. After the first call of \<open>generateRecipe\<close> on a valid form
  the button is disabled, and a second call before the response has arrived posts the
  payload again: two requests have been sent. Pressing Ctrl and Enter twice is one way to
  get there, since the \<open>keydown\<close> listener calls \<open>generateRecipe\<close> directly.
\<close>

theorem second_generateRecipe_posts_again:
  "generateBtn_disabled (generateRecipe_begin one_egg)
   \<and> posted (generateRecipe_begin (generateRecipe_begin one_egg))
       = [collectFormData one_egg, collectFormData one_egg]
   \<and> posted (keydown ctrlEnter (keydown ctrlEnter one_egg))
       = [collectFormData one_egg, collectFormData one_egg]"
proof -
  have v: "validateForm (collectFormData one_egg) = []"
    by (rule one_egg_valid)
  have v2: "validateForm (collectFormData (generateRecipe_begin one_egg)) = []"
    using v by (simp add: collectFormData_begin)
  have p0: "posted one_egg = []"
    by (simp add: one_egg_def loaded_def)
  have b1: "posted (generateRecipe_begin one_egg) = [collectFormData one_egg]"
    using v p0 by (simp add: generateRecipe_begin_posts)
  have b2: "posted (generateRecipe_begin (generateRecipe_begin one_egg))
              = [collectFormData one_egg, collectFormData one_egg]"
    using v2 b1
    by (simp add: generateRecipe_begin_posts [of "generateRecipe_begin one_egg"]
          collectFormData_begin [OF v])
  have d: "generateBtn_disabled (generateRecipe_begin one_egg)"
    using v by (simp add: generateRecipe_begin_posts)
  have e: "js ''Enter'' \<noteq> js ''Escape''"
    by (simp add: js_def)
  have n: "[] \<noteq> js ''none''"
    by (simp add: js_def)
  have f0: "recipeForm_display one_egg = []"
    by (simp add: one_egg_def loaded_def)
  have f1: "recipeForm_display (generateRecipe_begin one_egg) = []"
    using v f0 by (simp add: generateRecipe_begin_posts)
  have k1: "keydown ctrlEnter one_egg = generateRecipe_begin one_egg"
    using e n f0 by (simp add: keydown_def ctrlEnter_def)
  have k2: "keydown ctrlEnter (generateRecipe_begin one_egg)
              = generateRecipe_begin (generateRecipe_begin one_egg)"
    using e n f1 by (simp add: keydown_def ctrlEnter_def)
  show ?thesis
    using d b2 k1 k2 by simp
qed

subsection \<open>Failures of the service\<close>

lemma showError_fields:
  "shown (showError m s) = shown s @ [m]"
  "errorText (showError m s) = m"
  "errorMessage_hidden (showError m s) = False"
  "formContainer_display (showError m s) = formContainer_display s"
  "recipeResult_hidden (showError m s) = recipeResult_hidden s"
  by (simp_all add: showError_def)

lemma setLoadingState_fields:
  "shown (setLoadingState b s) = shown s"
  "errorText (setLoadingState b s) = errorText s"
  "errorMessage_hidden (setLoadingState b s) = errorMessage_hidden s"
  "formContainer_display (setLoadingState b s) = formContainer_display s"
  "recipeResult_hidden (setLoadingState b s) = recipeResult_hidden s"
  by (simp_all add: setLoadingState_def)

lemma settled_not_ok:
  assumes "\<not> ok status"
  shows "generateRecipe_settled (Response status body) s =
         setLoadingState False (showError
           (let errorData = (case body of NotJson \<Rightarrow> Obj [] | Json v \<Rightarrow> v) in
            if nullish errorData then EngineMessage TypeError
            else if truthy (getProp errorData ''error'') then
                   (if ToString (getProp errorData ''error'') \<noteq> []
                    then Text (ToString (getProp errorData ''error''))
                    else Text (js ''Failed to generate recipe. Please try again.''))
            else Text (js ''HTTP error! status: '' @ digits status)) s)"
proof -
  have ne: "js ''HTTP error! status: '' @ digits status \<noteq> []"
    by (simp add: js_def)
  show ?thesis
    using assms ne
    by (simp add: generateRecipe_settled_def fetchAPI_def catchError_def js_or_def Let_def)
qed

lemma settled_success_false:
  assumes "ok status" "\<not> nullish response" "\<not> truthy (getProp response ''success'')"
  shows "generateRecipe_settled (Response status (Json response)) s =
         setLoadingState False (showError
           (if truthy (getProp response ''error'') then
                   (if ToString (getProp response ''error'') \<noteq> []
                    then Text (ToString (getProp response ''error''))
                    else Text (js ''Failed to generate recipe. Please try again.''))
            else Text (js ''Failed to generate recipe'')) s)"
proof -
  have ne: "js ''Failed to generate recipe'' \<noteq> []"
    by (simp add: js_def)
  show ?thesis
    using assms ne
    by (simp add: generateRecipe_settled_def fetchAPI_def catchError_def js_or_def Let_def)
qed

text \<open>
  What the code does on every failure of the service whose body is not the JSON literal
  \<open>null\<close>: one message is shown and the views stay as they were; the message is the
  \<open>error\<close> text of the body when the body has one (a non-empty string), and when the
  body has no \<open>error\<close> it is \<open>Failed to generate recipe\<close> after a 2xx status and
  \<open>HTTP error! status: N\<close> after another status.
\<close>

lemma service_failure_message:
  assumes "\<not> ok status
           \<or> (\<exists>response. body = Json response \<and> \<not> nullish response
                  \<and> \<not> truthy (getProp response ''success''))"
    and "body \<noteq> Json Null" "body \<noteq> Json Undefined"
  shows "\<exists>m. shown (generateRecipe_settled (Response status body) s) = shown s @ [m]
            \<and> errorText (generateRecipe_settled (Response status body) s) = m
            \<and> \<not> errorMessage_hidden (generateRecipe_settled (Response status body) s)
            \<and> formContainer_display (generateRecipe_settled (Response status body) s)
                = formContainer_display s
            \<and> recipeResult_hidden (generateRecipe_settled (Response status body) s)
                = recipeResult_hidden s
            \<and> (\<forall>response text.
                  body = Json response \<and> getProp response ''error'' = Str text \<and> text \<noteq> []
                  \<longrightarrow> m = Text text)
            \<and> ((\<forall>response. body = Json response \<longrightarrow> \<not> truthy (getProp response ''error''))
                \<longrightarrow> m = (if ok status then Text (js ''Failed to generate recipe'')
                         else Text (js ''HTTP error! status: '' @ digits status)))"
proof (cases "ok status")
  case False
  show ?thesis
    unfolding settled_not_ok [OF False] setLoadingState_fields showError_fields
    using False assms(2,3) by (auto simp: Let_def nullish_def split: body.splits)
next
  case True
  with assms(1) obtain response where
    r: "body = Json response" "\<not> nullish response" "\<not> truthy (getProp response ''success'')"
    by blast
  show ?thesis
    unfolding r(1) settled_success_false [OF True r(2) r(3)] setLoadingState_fields
      showError_fields
    using True by auto
qed

text \<open>
  Claim C8 says that every response with a status outside 200 to 299 ends in one error
  message that is the server's error text or a generic fallback. The code does not do
  that for every such response. \<open>fetchAPI\<close> replaces a body that does not parse by
  \<open>{}\<close>, and then the fallback \<open>HTTP error! status: 500\<close> is shown; but a body that
  parses to \<open>null\<close> is kept, reading its \<open>error\<close> throws, and what is shown is the
  message of the engine's \<open>TypeError\<close>: neither a text of the server nor a fallback of
  the program. One message is shown and the view is not switched there either.
\<close>

theorem null_error_body_shows_engine_message:
  "\<not> ok 500
   \<and> fetchAPI (Response 500 (Json Null)) = Inl TypeError
   \<and> shown (generateRecipe_settled (Response 500 (Json Null)) one_egg)
       = [EngineMessage TypeError]
   \<and> errorText (generateRecipe_settled (Response 500 (Json Null)) one_egg)
       = EngineMessage TypeError
   \<and> recipeResult_hidden (generateRecipe_settled (Response 500 (Json Null)) one_egg)
   \<and> shown (generateRecipe_settled (Response 500 NotJson) one_egg)
       = [Text (js ''HTTP error! status: 500'')]"
proof -
  have n: "\<not> ok 500"
    by (simp add: ok_def)
  have f: "fetchAPI (Response 500 (Json Null)) = Inl TypeError"
    by (simp add: fetchAPI_def ok_def nullish_def)
  have d: "digits 500 = js ''500''"
    by code_simp
  have s0: "shown one_egg = []" "recipeResult_hidden one_egg"
    by (simp_all add: one_egg_def loaded_def)
  have null_body:
    "generateRecipe_settled (Response 500 (Json Null)) one_egg
       = setLoadingState False (showError (EngineMessage TypeError) one_egg)"
    unfolding settled_not_ok [OF n] by (simp add: nullish_def)
  have not_json:
    "generateRecipe_settled (Response 500 NotJson) one_egg
       = setLoadingState False (showError (Text (js ''HTTP error! status: 500'')) one_egg)"
    unfolding settled_not_ok [OF n] by (simp add: nullish_def d) (simp add: js_def)
  show ?thesis
    unfolding null_body not_json setLoadingState_fields showError_fields
    using n f s0 by simp
qed

end
